theory Spec2Isabelle
  imports Main
begin

section \<open>Python values the module relies on\<close>

text \<open>
  Strings are lists of characters; a \<^typ>\<open>char\<close> stands for a code point below 256.
  Python exceptions are values of \<open>pyerror\<close>: \<open>ValueError\<close> carries the literal that
  \<^verbatim>\<open>int()\<close> rejected (the text that follows
  \<^verbatim>\<open>invalid literal for int() with base 10:\<close> in the message), \<open>IndexError\<close> is
  \<^verbatim>\<open>list index out of range\<close> and has no payload, \<open>OSError\<close> covers the failures of
  \<^verbatim>\<open>open()\<close> on a path.
\<close>

datatype oserror = FileNotFoundError | PermissionError

datatype pyerror = ValueError string | IndexError | TypeError | OSError oserror

definition bind_result :: "pyerror + 'a \<Rightarrow> ('a \<Rightarrow> pyerror + 'b) \<Rightarrow> pyerror + 'b" where
  "bind_result m f = (case m of Inl e \<Rightarrow> Inl e | Inr v \<Rightarrow> f v)"

text \<open>\<^verbatim>\<open>x[i]\<close> for a list and a non-negative literal index.\<close>

definition getitem :: "'a list \<Rightarrow> nat \<Rightarrow> pyerror + 'a" where
  "getitem x i = (if i < length x then Inr (x ! i) else Inl IndexError)"

text \<open>\<^verbatim>\<open>str.isspace\<close> on code points below 256, the separators of \<^verbatim>\<open>str.split()\<close>.\<close>

definition is_space :: "char \<Rightarrow> bool" where
  "is_space c = (let n = (of_char c :: nat) in
     (9 \<le> n \<and> n \<le> 13) \<or> (28 \<le> n \<and> n \<le> 32) \<or> n = 133 \<or> n = 160)"

text \<open>The blanks that \<^verbatim>\<open>int()\<close> strips at both ends of its argument.\<close>

definition is_int_space :: "char \<Rightarrow> bool" where
  "is_int_space c = (let n = (of_char c :: nat) in
     (9 \<le> n \<and> n \<le> 13) \<or> n = 32 \<or> n = 133 \<or> n = 160)"

definition is_digit :: "char \<Rightarrow> bool" where
  "is_digit c = (let n = (of_char c :: nat) in 48 \<le> n \<and> n \<le> 57)"

definition digit_val :: "char \<Rightarrow> int" where
  "digit_val c = int (of_char c) - 48"

text \<open>
  The digits of a base-10 literal: at least one digit, single underscores allowed
  between digits only. The flag says whether the previous character was a digit.
\<close>

fun parse_digits :: "bool \<Rightarrow> int \<Rightarrow> string \<Rightarrow> int option" where
  "parse_digits prev acc [] = (if prev then Some acc else None)"
| "parse_digits prev acc (c # cs) =
     (if is_digit c then parse_digits True (10 * acc + digit_val c) cs
      else if c = CHR ''_'' \<and> prev then parse_digits False acc cs
      else None)"

definition int_strip :: "string \<Rightarrow> string" where
  "int_strip s = rev (dropWhile is_int_space (rev (dropWhile is_int_space s)))"

definition parse_int :: "string \<Rightarrow> int option" where
  "parse_int s =
     (case int_strip s of
        [] \<Rightarrow> None
      | c # cs \<Rightarrow>
          if c = CHR ''-'' then map_option uminus (parse_digits False 0 cs)
          else if c = CHR ''+'' then parse_digits False 0 cs
          else parse_digits False 0 (c # cs))"

text \<open>
  \<^verbatim>\<open>int(s)\<close> for a string \<open>s\<close>, base 10. The interpreter's configurable limit on the
  number of digits of a literal is not modelled.
\<close>

definition py_int :: "string \<Rightarrow> pyerror + int" where
  "py_int s = (case parse_int s of None \<Rightarrow> Inl (ValueError s) | Some n \<Rightarrow> Inr n)"

text \<open>\<^verbatim>\<open>sep.join(xs)\<close>.\<close>

fun str_join :: "string \<Rightarrow> string list \<Rightarrow> string" where
  "str_join sep [] = []"
| "str_join sep [x] = x"
| "str_join sep (x # y # ys) = x @ sep @ str_join sep (y # ys)"

section \<open>The data model of \<^verbatim>\<open>domtbl.py\<close>\<close>

record DomTBLIndex =
  idx_name :: string
  idx_accession :: string
  idx_length :: int

record DomTBLSeqScore =
  seq_e_value :: string
  seq_score :: string
  seq_bias :: string

record DomTBLDomScore =
  dom_id :: int
  dom_size :: int
  dom_c_value :: string
  dom_i_value :: string
  dom_score :: string
  dom_bias :: string

record DomTBLCoord =
  start :: int
  stop :: int

record DomTBLRow =
  target :: DomTBLIndex
  query :: DomTBLIndex
  full_sequence :: DomTBLSeqScore
  domain :: DomTBLDomScore
  hmm_coord :: DomTBLCoord
  ali_coord :: DomTBLCoord
  env_coord :: DomTBLCoord
  acc :: string
  description :: string

section \<open>Building one row\<close>

text \<open>
  The body of the loop of \<^verbatim>\<open>read_domtbl\<close>: the keyword arguments are evaluated
  from left to right, so the first failing subscript or \<^verbatim>\<open>int()\<close> decides the
  exception. The models are built from values of the declared types, so the
  constructors themselves do not fail.
\<close>

definition int_item :: "string list \<Rightarrow> nat \<Rightarrow> pyerror + int" where
  "int_item x i = bind_result (getitem x i) py_int"

definition read_domtbl_row :: "string list \<Rightarrow> pyerror + DomTBLRow" where
  "read_domtbl_row x =
     bind_result (getitem x 0) (\<lambda>x0.
     bind_result (getitem x 1) (\<lambda>x1.
     bind_result (int_item x 2) (\<lambda>x2.
     bind_result (getitem x 3) (\<lambda>x3.
     bind_result (getitem x 4) (\<lambda>x4.
     bind_result (int_item x 5) (\<lambda>x5.
     bind_result (getitem x 6) (\<lambda>x6.
     bind_result (getitem x 7) (\<lambda>x7.
     bind_result (getitem x 8) (\<lambda>x8.
     bind_result (int_item x 9) (\<lambda>x9.
     bind_result (int_item x 10) (\<lambda>x10.
     bind_result (getitem x 11) (\<lambda>x11.
     bind_result (getitem x 12) (\<lambda>x12.
     bind_result (getitem x 13) (\<lambda>x13.
     bind_result (getitem x 14) (\<lambda>x14.
     bind_result (int_item x 15) (\<lambda>x15.
     bind_result (int_item x 16) (\<lambda>x16.
     bind_result (int_item x 17) (\<lambda>x17.
     bind_result (int_item x 18) (\<lambda>x18.
     bind_result (int_item x 19) (\<lambda>x19.
     bind_result (int_item x 20) (\<lambda>x20.
     bind_result (getitem x 21) (\<lambda>x21.
     Inr \<lparr> target = \<lparr> idx_name = x0, idx_accession = x1, idx_length = x2 \<rparr>,
           query = \<lparr> idx_name = x3, idx_accession = x4, idx_length = x5 \<rparr>,
           full_sequence = \<lparr> seq_e_value = x6, seq_score = x7, seq_bias = x8 \<rparr>,
           domain = \<lparr> dom_id = x9, dom_size = x10, dom_c_value = x11,
                      dom_i_value = x12, dom_score = x13, dom_bias = x14 \<rparr>,
           hmm_coord = \<lparr> start = x15, stop = x16 \<rparr>,
           ali_coord = \<lparr> start = x17, stop = x18 \<rparr>,
           env_coord = \<lparr> start = x19, stop = x20 \<rparr>,
           acc = x21,
           description = str_join '' '' (drop 22 x) \<rparr>))))))))))))))))))))))"


text \<open>The subscripts whose tokens the loop body passes to \<^verbatim>\<open>int()\<close>.\<close>

definition int_positions :: "nat list" where
  "int_positions = [2, 5, 9, 10, 15, 16, 17, 18, 19, 20]"

text \<open>The subscripts of the score-like tokens, which the loop body stores as they are.\<close>

definition score_positions :: "nat list" where
  "score_positions = [6, 7, 8, 11, 12, 13, 14]"

section \<open>Lines and files\<close>

text \<open>\<^verbatim>\<open>line.split()\<close>: the maximal runs of characters that are not blanks.\<close>

function split_ws :: "string \<Rightarrow> string list" where
  "split_ws [] = []"
| "split_ws (c # cs) =
     (if is_space c then split_ws cs
      else (c # takeWhile (\<lambda>d. \<not> is_space d) cs) # split_ws (dropWhile (\<lambda>d. \<not> is_space d) cs))"
  by pat_completeness auto
termination
  by (relation "measure length") (auto simp: length_dropWhile_le less_Suc_eq_le)

text \<open>
  The lines of a file that yield a row: a line that is blank yields none, and neither
  does a line that the line iteration treats as a comment. Which lines count as
  comments is left open: \<open>comment\<close> is a parameter.
\<close>

definition data_lines :: "(string \<Rightarrow> bool) \<Rightarrow> string list \<Rightarrow> string list" where
  "data_lines comment file = filter (\<lambda>l. split_ws l \<noteq> [] \<and> \<not> comment l) file"

text \<open>The usual policy for comments: a line that starts with \<open>#\<close>.\<close>

definition hash_comment :: "string \<Rightarrow> bool" where
  "hash_comment l = (take 1 l = [CHR 0x23])"

text \<open>
  Modelled from the spec: \<^verbatim>\<open>hmmer_tables/csv_iter.py\<close> is not among the sources.
  The spec's tokenizer splits each logical line on runs of whitespace, and its line
  iteration skips blank lines and comment lines before the rows are built.
\<close>

definition csv_iter :: "(string \<Rightarrow> bool) \<Rightarrow> string list \<Rightarrow> string list list" where
  "csv_iter comment file = map split_ws (data_lines comment file)"

text \<open>
  A file system maps a path to the lines of a readable text file, or says that the
  file cannot be read; an absent path has no file. The argument of \<^verbatim>\<open>read_domtbl\<close> is
  a path or an open text stream over some lines.
\<close>

datatype fs_entry = Readable "string list" | Unreadable

type_synonym filesystem = "string \<rightharpoonup> fs_entry"

datatype file_arg = Path string | Stream "string list"

text \<open>
  \<^verbatim>\<open>open(filename, "r")\<close>: a path is looked up in the file system; anything that is
  not a path (a stream object has no \<^verbatim>\<open>__fspath__\<close>) is refused with \<^verbatim>\<open>TypeError\<close>.
\<close>

fun py_open :: "filesystem \<Rightarrow> file_arg \<Rightarrow> pyerror + string list" where
  "py_open fs (Path p) =
     (case fs p of
        None \<Rightarrow> Inl (OSError FileNotFoundError)
      | Some Unreadable \<Rightarrow> Inl (OSError PermissionError)
      | Some (Readable ls) \<Rightarrow> Inr ls)"
| "py_open fs (Stream ls) = Inl TypeError"

text \<open>The \<^verbatim>\<open>for\<close> loop: \<open>rows\<close> is the list built so far.\<close>

fun read_domtbl_loop :: "string list list \<Rightarrow> DomTBLRow list \<Rightarrow> pyerror + DomTBLRow list" where
  "read_domtbl_loop [] rows = Inr rows"
| "read_domtbl_loop (x # xs) rows =
     (case read_domtbl_row x of
        Inl e \<Rightarrow> Inl e
      | Inr row \<Rightarrow> read_domtbl_loop xs (rows @ [row]))"

definition read_domtbl :: "(string \<Rightarrow> bool) \<Rightarrow> filesystem \<Rightarrow> file_arg \<Rightarrow> pyerror + DomTBLRow list" where
  "read_domtbl comment fs filename =
     bind_result (py_open fs filename)
       (\<lambda>file. read_domtbl_loop (csv_iter comment file) [])"

section \<open>Intervals\<close>

record RInterval =
  r_start :: int
  r_stop :: int

record PyInterval =
  py_start :: int
  py_stop :: int

text \<open>
  Modelled from the spec: \<^verbatim>\<open>hmmer_tables/interval.py\<close> (\<^verbatim>\<open>RInterval\<close>,
  \<^verbatim>\<open>PyInterval\<close>) is not among the sources. The spec: a 1-based closed pair
  \<open>(start, stop)\<close> is converted to the 0-based half-open pair \<open>(start - 1, stop)\<close>, and
  there is no bounds validation.
\<close>

definition RInterval_init :: "int \<Rightarrow> int \<Rightarrow> pyerror + RInterval" where
  "RInterval_init a b = Inr \<lparr> r_start = a, r_stop = b \<rparr>"

text \<open>
  Modelled from the spec: \<^verbatim>\<open>RInterval.to_pyinterval\<close>, absent like its class. The
  spec: the interval of \<open>(start, stop)\<close> is \<open>(start - 1, stop)\<close>.
\<close>

definition to_pyinterval :: "RInterval \<Rightarrow> pyerror + PyInterval" where
  "to_pyinterval self = Inr \<lparr> py_start = r_start self - 1, py_stop = r_stop self \<rparr>"

text \<open>
  \<^verbatim>\<open>DomTBLCoord(start=..., stop=...)\<close>: two fields of type \<^verbatim>\<open>int\<close> and no validator.
\<close>

definition DomTBLCoord_init :: "int \<Rightarrow> int \<Rightarrow> pyerror + DomTBLCoord" where
  "DomTBLCoord_init a b = Inr \<lparr> start = a, stop = b \<rparr>"

text \<open>The property \<^verbatim>\<open>DomTBLCoord.interval\<close>.\<close>

definition interval :: "DomTBLCoord \<Rightarrow> pyerror + PyInterval" where
  "interval self =
     bind_result (RInterval_init (start self) (stop self)) (\<lambda>rinterval.
     to_pyinterval rinterval)"


section \<open>Rows as Python objects\<close>

text \<open>
  For the operations that work on any object (\<^verbatim>\<open>dataclasses.asdict\<close>, attribute
  assignment) an instance is seen as its class kind and its fields in declaration
  order, under the field names of the source. Each class of the module derives from
  pydantic's \<^verbatim>\<open>BaseModel\<close>; none is declared with \<^verbatim>\<open>@dataclass\<close>.
\<close>

datatype class_kind = PydanticModel | Dataclass

datatype pyval =
    PStr string
  | PInt int
  | PObj class_kind "(string \<times> pyval) list"
  | PDict "(string \<times> pyval) list"

definition DomTBLIndex_obj :: "DomTBLIndex \<Rightarrow> pyval" where
  "DomTBLIndex_obj self = PObj PydanticModel
     [(''name'', PStr (idx_name self)),
      (''accession'', PStr (idx_accession self)),
      (''length'', PInt (idx_length self))]"

definition DomTBLSeqScore_obj :: "DomTBLSeqScore \<Rightarrow> pyval" where
  "DomTBLSeqScore_obj self = PObj PydanticModel
     [(''e_value'', PStr (seq_e_value self)),
      (''score'', PStr (seq_score self)),
      (''bias'', PStr (seq_bias self))]"

definition DomTBLDomScore_obj :: "DomTBLDomScore \<Rightarrow> pyval" where
  "DomTBLDomScore_obj self = PObj PydanticModel
     [(''id'', PInt (dom_id self)),
      (''size'', PInt (dom_size self)),
      (''c_value'', PStr (dom_c_value self)),
      (''i_value'', PStr (dom_i_value self)),
      (''score'', PStr (dom_score self)),
      (''bias'', PStr (dom_bias self))]"

definition DomTBLCoord_obj :: "DomTBLCoord \<Rightarrow> pyval" where
  "DomTBLCoord_obj self = PObj PydanticModel
     [(''start'', PInt (start self)),
      (''stop'', PInt (stop self))]"

definition DomTBLRow_obj :: "DomTBLRow \<Rightarrow> pyval" where
  "DomTBLRow_obj self = PObj PydanticModel
     [(''target'', DomTBLIndex_obj (target self)),
      (''query'', DomTBLIndex_obj (query self)),
      (''full_sequence'', DomTBLSeqScore_obj (full_sequence self)),
      (''domain'', DomTBLDomScore_obj (domain self)),
      (''hmm_coord'', DomTBLCoord_obj (hmm_coord self)),
      (''ali_coord'', DomTBLCoord_obj (ali_coord self)),
      (''env_coord'', DomTBLCoord_obj (env_coord self)),
      (''acc'', PStr (acc self)),
      (''description'', PStr (description self))]"

definition fields_of :: "pyval \<Rightarrow> (string \<times> pyval) list" where
  "fields_of obj = (case obj of PObj k fs \<Rightarrow> fs | _ \<Rightarrow> [])"

text \<open>
  \<^verbatim>\<open>dataclasses.asdict(obj)\<close>: an argument that is not an instance of a dataclass
  is refused with \<^verbatim>\<open>TypeError\<close>; for a dataclass the fields are converted
  recursively, nested dataclasses becoming dictionaries, other values copied.
\<close>

primrec asdict_inner :: "pyval \<Rightarrow> pyval" where
  "asdict_inner (PStr s) = PStr s"
| "asdict_inner (PInt n) = PInt n"
| "asdict_inner (PObj k fs) =
     (if k = Dataclass then PDict (map (map_prod id asdict_inner) fs) else PObj k fs)"
| "asdict_inner (PDict kvs) = PDict (map (map_prod id asdict_inner) kvs)"

definition dataclasses_asdict :: "pyval \<Rightarrow> pyerror + (string \<times> pyval) list" where
  "dataclasses_asdict obj =
     (case obj of
        PObj Dataclass fs \<Rightarrow> Inr (map (map_prod id asdict_inner) fs)
      | _ \<Rightarrow> Inl TypeError)"

text \<open>\<^verbatim>\<open>DomTBLRow._asdict\<close> and \<^verbatim>\<open>DomTBLRow.__iter__\<close>.\<close>

definition DomTBLRow_asdict :: "DomTBLRow \<Rightarrow> pyerror + (string \<times> pyval) list" where
  "DomTBLRow_asdict self = dataclasses_asdict (DomTBLRow_obj self)"

definition DomTBLRow_iter :: "DomTBLRow \<Rightarrow> pyerror + pyval list" where
  "DomTBLRow_iter self = bind_result (DomTBLRow_asdict self) (\<lambda>d. Inr (map snd d))"

text \<open>
  Attribute assignment on a pydantic model, \<^verbatim>\<open>obj.name = v\<close>: a name that is not a
  declared field is refused, and so is any assignment when the model's configuration
  freezes its instances; otherwise the field takes the new value (the value is not
  validated). No class of the module declares a configuration, so each has the
  default one, which does not freeze.
\<close>

record model_config =
  frozen :: bool

definition BaseModel_config :: model_config where
  "BaseModel_config = \<lparr> frozen = False \<rparr>"

definition pydantic_setattr :: "model_config \<Rightarrow> pyval \<Rightarrow> string \<Rightarrow> pyval \<Rightarrow> pyerror + pyval" where
  "pydantic_setattr config obj name v =
     (case obj of
        PObj k fs \<Rightarrow>
          if name \<notin> fst ` set fs then Inl (ValueError name)
          else if frozen config then Inl TypeError
          else Inr (PObj k (map (\<lambda>(n, old). if n = name then (n, v) else (n, old)) fs))
      | _ \<Rightarrow> Inl TypeError)"

definition DomTBLIndex_setattr :: "DomTBLIndex \<Rightarrow> string \<Rightarrow> pyval \<Rightarrow> pyerror + pyval" where
  "DomTBLIndex_setattr self name v = pydantic_setattr BaseModel_config (DomTBLIndex_obj self) name v"

definition DomTBLRow_setattr :: "DomTBLRow \<Rightarrow> string \<Rightarrow> pyval \<Rightarrow> pyerror + pyval" where
  "DomTBLRow_setattr self name v = pydantic_setattr BaseModel_config (DomTBLRow_obj self) name v"

section \<open>The positional mapping as a relation\<close>

text \<open>
  The layout of section 4.3 of the spec, read as a relation between the tokens of a
  line and a row: each field of the row is the token at its position, the tokens at
  positions 2, 5, 9, 10 and 15 to 20 through \<^verbatim>\<open>int()\<close>, the others as they are, and
  the description is the tokens from position 22 on, joined by single spaces.
\<close>

definition positional_mapping :: "string list \<Rightarrow> DomTBLRow \<Rightarrow> bool" where
  "positional_mapping x r =
     (idx_name (target r) = x ! 0 \<and>
      idx_accession (target r) = x ! 1 \<and>
      py_int (x ! 2) = Inr (idx_length (target r)) \<and>
      idx_name (query r) = x ! 3 \<and>
      idx_accession (query r) = x ! 4 \<and>
      py_int (x ! 5) = Inr (idx_length (query r)) \<and>
      seq_e_value (full_sequence r) = x ! 6 \<and>
      seq_score (full_sequence r) = x ! 7 \<and>
      seq_bias (full_sequence r) = x ! 8 \<and>
      py_int (x ! 9) = Inr (dom_id (domain r)) \<and>
      py_int (x ! 10) = Inr (dom_size (domain r)) \<and>
      dom_c_value (domain r) = x ! 11 \<and>
      dom_i_value (domain r) = x ! 12 \<and>
      dom_score (domain r) = x ! 13 \<and>
      dom_bias (domain r) = x ! 14 \<and>
      py_int (x ! 15) = Inr (start (hmm_coord r)) \<and>
      py_int (x ! 16) = Inr (stop (hmm_coord r)) \<and>
      py_int (x ! 17) = Inr (start (ali_coord r)) \<and>
      py_int (x ! 18) = Inr (stop (ali_coord r)) \<and>
      py_int (x ! 19) = Inr (start (env_coord r)) \<and>
      py_int (x ! 20) = Inr (stop (env_coord r)) \<and>
      acc r = x ! 21 \<and>
      description r = str_join '' '' (drop 22 x))"

section \<open>Facts about the loop body\<close>

lemma bind_result_Inr [simp]: "bind_result (Inr v) f = f v"
  by (simp add: bind_result_def)

lemma bind_result_Inl [simp]: "bind_result (Inl e) f = Inl e"
  by (simp add: bind_result_def)

lemma bind_result_InrE:
  assumes "bind_result m f = Inr r"
  obtains v where "m = Inr v" and "f v = Inr r"
  using assms by (cases m) simp_all

lemma bind_result_if:
  "bind_result m f = (if isl m then Inl (projl m) else f (projr m))"
  by (cases m) simp_all

lemma getitem_Inr_iff: "getitem x i = Inr v \<longleftrightarrow> i < length x \<and> v = x ! i"
  by (auto simp: getitem_def)

lemma int_item_Inr_iff: "int_item x i = Inr n \<longleftrightarrow> i < length x \<and> py_int (x ! i) = Inr n"
  by (auto simp: int_item_def getitem_def)

lemma getitem_lt: "i < length x \<Longrightarrow> getitem x i = Inr (x ! i)"
  by (simp add: getitem_def)

lemma getitem_ge: "length x \<le> i \<Longrightarrow> getitem x i = Inl IndexError"
  by (simp add: getitem_def)

lemma int_item_lt: "i < length x \<Longrightarrow> int_item x i = py_int (x ! i)"
  by (simp add: int_item_def getitem_def)

lemma int_item_ge: "length x \<le> i \<Longrightarrow> int_item x i = Inl IndexError"
  by (simp add: int_item_def getitem_def)

lemmas item_simps = getitem_lt getitem_ge int_item_lt int_item_ge

lemma int_positions_unfold:
  "(\<forall>i \<in> set int_positions. P i) \<longleftrightarrow>
     P 2 \<and> P 5 \<and> P 9 \<and> P 10 \<and> P 15 \<and> P 16 \<and> P 17 \<and> P 18 \<and> P 19 \<and> P 20"
  by (simp add: int_positions_def)

text \<open>A row that was built has all 22 positions, and its fields follow the layout.\<close>

lemma read_domtbl_row_InrD:
  assumes "read_domtbl_row x = Inr r"
  shows "22 \<le> length x" and "positional_mapping x r"
proof -
  from assms [unfolded read_domtbl_row_def]
  have "22 \<le> length x \<and> positional_mapping x r"
    by (elim bind_result_InrE)
       (auto simp: getitem_Inr_iff int_item_Inr_iff positional_mapping_def)
  then show "22 \<le> length x" and "positional_mapping x r" by simp_all
qed

text \<open>With 22 tokens and acceptable integer literals, the row is built.\<close>

lemma read_domtbl_row_ok:
  assumes len: "22 \<le> length x"
    and ints: "\<forall>i \<in> set int_positions. \<not> isl (py_int (x ! i))"
  shows "\<exists>r. read_domtbl_row x = Inr r"
proof -
  have ii: "\<exists>n. int_item x i = Inr n" if "i \<in> set int_positions" for i
  proof -
    from that ints have "\<not> isl (py_int (x ! i))" by blast
    then obtain n where "py_int (x ! i) = Inr n" by (cases "py_int (x ! i)") simp_all
    moreover from that len have "i < length x" by (auto simp: int_positions_def)
    ultimately show ?thesis by (simp add: int_item_Inr_iff)
  qed
  have gi: "getitem x i = Inr (x ! i)" if "i < 22" for i
    using that len by (simp add: getitem_def)
  from ii [of 2] ii [of 5] ii [of 9] ii [of 10] ii [of 15] ii [of 16] ii [of 17] ii [of 18]
    ii [of 19] ii [of 20]
  show ?thesis
    unfolding read_domtbl_row_def by (auto simp: gi int_positions_def)
qed

text \<open>
  A line that is too short and whose integer literals, as far as they are present,
  are acceptable, ends in the failing subscript.
\<close>

lemma read_domtbl_row_IndexError:
  assumes len: "length x < 22"
    and ints: "\<forall>i \<in> set int_positions. i < length x \<longrightarrow> \<not> isl (py_int (x ! i))"
  shows "read_domtbl_row x = Inl IndexError"
proof -
  note v = ints [unfolded int_positions_unfold]
  from len have "length x \<in> {0, 1, 2, 3, 4, 5, 6, 7, 8, 9, 10, 11, 12, 13, 14, 15, 16, 17, 18, 19, 20, 21}"
    by (simp del: length_0_conv) arith
  then show ?thesis
    by (elim insertE emptyE)
       (insert v, simp_all add: read_domtbl_row_def bind_result_if item_simps
          del: length_greater_0_conv length_0_conv)
qed

text \<open>The leftmost integer literal that \<^verbatim>\<open>int()\<close> refuses decides the exception.\<close>

lemma read_domtbl_row_int_error:
  assumes i: "i \<in> set int_positions" and len: "i < length x"
    and bad: "py_int (x ! i) = Inl e"
    and ok: "\<forall>j \<in> set int_positions. j < i \<longrightarrow> \<not> isl (py_int (x ! j))"
  shows "read_domtbl_row x = Inl e"
proof -
  note v = ok [unfolded int_positions_unfold]
  from i have "i \<in> {2, 5, 9, 10, 15, 16, 17, 18, 19, 20}"
    by (simp add: int_positions_def)
  then show ?thesis
    by (elim insertE emptyE)
       (insert v len bad, simp_all add: read_domtbl_row_def bind_result_if item_simps
          del: length_greater_0_conv length_0_conv)
qed

section \<open>Reading a file\<close>

lemma read_domtbl_loop_Inr:
  "list_all2 (\<lambda>x r. read_domtbl_row x = Inr r) xs rs \<Longrightarrow>
   read_domtbl_loop xs rows = Inr (rows @ rs)"
proof (induction xs arbitrary: rows rs)
  case Nil
  then show ?case by simp
next
  case (Cons x xs)
  from Cons.prems obtain r rs' where rs: "rs = r # rs'"
    and r: "read_domtbl_row x = Inr r"
    and rest: "list_all2 (\<lambda>x r. read_domtbl_row x = Inr r) xs rs'"
    by (auto simp: list_all2_Cons1)
  from Cons.IH [OF rest, of "rows @ [r]"] r rs show ?case by simp
qed

lemma read_domtbl_loop_Inl:
  "x \<in> set xs \<Longrightarrow> isl (read_domtbl_row x) \<Longrightarrow> isl (read_domtbl_loop xs rows)"
proof (induction xs arbitrary: rows)
  case Nil
  then show ?case by simp
next
  case (Cons y ys)
  show ?case
  proof (cases "read_domtbl_row y")
    case (Inl e)
    then show ?thesis by simp
  next
    case (Inr r)
    with Cons.prems have "x \<in> set ys" by auto
    from Cons.IH [OF this Cons.prems(2)] Inr show ?thesis by simp
  qed
qed

lemma rows_exist:
  "\<forall>x \<in> set xs. \<exists>r. read_domtbl_row x = Inr r \<Longrightarrow>
   \<exists>rs. list_all2 (\<lambda>x r. read_domtbl_row x = Inr r) xs rs"
proof (induction xs)
  case Nil
  then show ?case by simp
next
  case (Cons x xs)
  then obtain r rs where "read_domtbl_row x = Inr r"
    and "list_all2 (\<lambda>x r. read_domtbl_row x = Inr r) xs rs" by auto
  then have "list_all2 (\<lambda>x r. read_domtbl_row x = Inr r) (x # xs) (r # rs)" by simp
  then show ?case by blast
qed

subsection \<open>The rows of well-formed lines\<close>

text \<open>
  Claim C1. Let the file at the given path be readable, and let every data line have at
  least 22 whitespace-separated tokens, those at the integer positions being literals
  that \<^verbatim>\<open>int()\<close> accepts (a valid line of the spec). Then \<^verbatim>\<open>read_domtbl\<close>
  returns one row per data line, in the order of the file, and the row of each line
  follows the positional mapping of section 4.3: the first 22 tokens give the 22 structured
  fields, the integer ones coerced and the score-like ones kept as strings, and the
  description is the tokens from position 22 on joined by single spaces.
\<close>

theorem read_domtbl_rows_in_order:
  assumes readable: "fs p = Some (Readable content)"
    and valid: "\<forall>l \<in> set (data_lines comment content).
        22 \<le> length (split_ws l) \<and>
        (\<forall>i \<in> set int_positions. \<not> isl (py_int (split_ws l ! i)))"
  shows "\<exists>rows. read_domtbl comment fs (Path p) = Inr rows \<and>
      length rows = length (data_lines comment content) \<and>
      (\<forall>k < length rows. positional_mapping (split_ws (data_lines comment content ! k)) (rows ! k))"
proof -
  let ?xs = "csv_iter comment content"
  have "\<forall>x \<in> set ?xs. \<exists>r. read_domtbl_row x = Inr r"
    using valid by (auto simp: csv_iter_def intro: read_domtbl_row_ok)
  from rows_exist [OF this] obtain rows
    where all2: "list_all2 (\<lambda>x r. read_domtbl_row x = Inr r) ?xs rows" by blast
  from read_domtbl_loop_Inr [OF all2, of "[]"] readable
  have res: "read_domtbl comment fs (Path p) = Inr rows"
    by (simp add: read_domtbl_def)
  from list_all2_lengthD [OF all2] have len: "length rows = length (data_lines comment content)"
    by (simp add: csv_iter_def)
  have "positional_mapping (split_ws (data_lines comment content ! k)) (rows ! k)"
    if "k < length rows" for k
  proof -
    from that len have k: "k < length ?xs" by (simp add: csv_iter_def)
    from list_all2_nthD [OF all2 k] have "read_domtbl_row (?xs ! k) = Inr (rows ! k)" .
    from read_domtbl_row_InrD(2) [OF this] that len show ?thesis
      by (simp add: csv_iter_def)
  qed
  with res len show ?thesis by blast
qed

theorem read_domtbl_rows_in_order_witness:
  "\<exists>rows.
     read_domtbl hash_comment
       [''hits.domtbl'' \<mapsto> Readable
          [''# tbl'',
           ''sp|P1 ACC1 100 sp|Q1 ACC2 200 1e-10 50.0 0.5 1 1 1e-12 1e-11 48.0 0.3 10 50 12 48 1 60 0.95 Example description here'',
           '''',
           ''t2 - 7 q2 - 8 0 1.0 0.0 2 3 0 0 1.0 0.0 1 2 3 4 5 6 0.5'']]
       (Path ''hits.domtbl'') = Inr rows \<and>
     length rows = 2 \<and>
     positional_mapping
       [''sp|P1'', ''ACC1'', ''100'', ''sp|Q1'', ''ACC2'', ''200'', ''1e-10'', ''50.0'', ''0.5'',
        ''1'', ''1'', ''1e-12'', ''1e-11'', ''48.0'', ''0.3'', ''10'', ''50'', ''12'', ''48'', ''1'',
        ''60'', ''0.95'', ''Example'', ''description'', ''here''] (rows ! 0) \<and>
     positional_mapping
       [''t2'', ''-'', ''7'', ''q2'', ''-'', ''8'', ''0'', ''1.0'', ''0.0'', ''2'', ''3'', ''0'', ''0'',
        ''1.0'', ''0.0'', ''1'', ''2'', ''3'', ''4'', ''5'', ''6'', ''0.5''] (rows ! 1)"
proof -
  define c :: "string \<Rightarrow> bool" where "c = hash_comment"
  define l1 where "l1 = ''sp|P1 ACC1 100 sp|Q1 ACC2 200 1e-10 50.0 0.5 1 1 1e-12 1e-11 48.0 0.3 10 50 12 48 1 60 0.95 Example description here''"
  define l2 where "l2 = ''t2 - 7 q2 - 8 0 1.0 0.0 2 3 0 0 1.0 0.0 1 2 3 4 5 6 0.5''"
  define t1 where "t1 = [''sp|P1'', ''ACC1'', ''100'', ''sp|Q1'', ''ACC2'', ''200'', ''1e-10'', ''50.0'', ''0.5'',
        ''1'', ''1'', ''1e-12'', ''1e-11'', ''48.0'', ''0.3'', ''10'', ''50'', ''12'', ''48'', ''1'',
        ''60'', ''0.95'', ''Example'', ''description'', ''here'']"
  define t2 where "t2 = [''t2'', ''-'', ''7'', ''q2'', ''-'', ''8'', ''0'', ''1.0'', ''0.0'', ''2'', ''3'', ''0'', ''0'',
        ''1.0'', ''0.0'', ''1'', ''2'', ''3'', ''4'', ''5'', ''6'', ''0.5'']"
  define content where "content = [''# tbl'', l1, '''', l2]"
  define fs :: filesystem where "fs = [''hits.domtbl'' \<mapsto> Readable content]"
  have h1: "fs ''hits.domtbl'' = Some (Readable content)" by (simp add: fs_def)
  have s1: "split_ws l1 = t1" unfolding l1_def t1_def by (simp add: is_space_def)
  have s2: "split_ws l2 = t2" unfolding l2_def t2_def by (simp add: is_space_def)
  have ne: "t1 \<noteq> []" "t2 \<noteq> []" by (simp_all add: t1_def t2_def)
  have nc: "\<not> c l1" "\<not> c l2" by (simp_all add: c_def hash_comment_def l1_def l2_def)
  have cc: "c ''# tbl''" by (simp add: c_def hash_comment_def)
  have dl: "data_lines c content = [l1, l2]"
    by (simp add: data_lines_def content_def s1 s2 ne nc cc)
  have v1: "22 \<le> length t1 \<and> (\<forall>i \<in> set int_positions. \<not> isl (py_int (t1 ! i)))"
    by (simp add: t1_def int_positions_def py_int_def parse_int_def int_strip_def
          is_int_space_def is_digit_def digit_val_def)
  have v2: "22 \<le> length t2 \<and> (\<forall>i \<in> set int_positions. \<not> isl (py_int (t2 ! i)))"
    by (simp add: t2_def int_positions_def py_int_def parse_int_def int_strip_def
          is_int_space_def is_digit_def digit_val_def)
  have h2: "\<forall>l \<in> set (data_lines c content).
        22 \<le> length (split_ws l) \<and>
        (\<forall>i \<in> set int_positions. \<not> isl (py_int (split_ws l ! i)))"
    using v1 v2 by (simp add: dl s1 s2)
  from read_domtbl_rows_in_order [of fs "''hits.domtbl''" content c, OF h1 h2] obtain rows
    where r: "read_domtbl c fs (Path ''hits.domtbl'') = Inr rows"
      and len: "length rows = length (data_lines c content)"
      and pm: "\<forall>k < length rows. positional_mapping (split_ws (data_lines c content ! k)) (rows ! k)"
    by blast
  from len have len2: "length rows = 2" by (simp add: dl)
  from pm len2 have "positional_mapping (split_ws (data_lines c content ! 0)) (rows ! 0)"
    and "positional_mapping (split_ws (data_lines c content ! 1)) (rows ! 1)" by simp_all
  then have "positional_mapping t1 (rows ! 0)" and "positional_mapping t2 (rows ! 1)"
    by (simp_all add: dl s1 s2)
  with r len2 have "\<exists>rows. read_domtbl c fs (Path ''hits.domtbl'') = Inr rows \<and>
     length rows = 2 \<and> positional_mapping t1 (rows ! 0) \<and> positional_mapping t2 (rows ! 1)"
    by blast
  then show ?thesis
    unfolding c_def fs_def content_def l1_def l2_def t1_def t2_def .
qed

text \<open>The loop stops at the first line whose row cannot be built, with that line's exception.\<close>

lemma read_domtbl_loop_first_error:
  assumes "\<forall>y \<in> set pre. \<not> isl (read_domtbl_row y)"
    and "read_domtbl_row x = Inl e"
  shows "read_domtbl_loop (pre @ x # post) rows = Inl e"
  using assms
proof (induction pre arbitrary: rows)
  case Nil
  then show ?case by simp
next
  case (Cons y ys)
  from Cons.prems(1) obtain r where "read_domtbl_row y = Inr r"
    by (cases "read_domtbl_row y") simp_all
  with Cons show ?case by simp
qed

lemma py_int_Inl: "py_int s = Inl e \<Longrightarrow> e = ValueError s"
  by (auto simp: py_int_def split: option.splits)

lemma py_int_isl: "isl (py_int s) \<Longrightarrow> py_int s = Inl (ValueError s)"
  by (auto simp: py_int_def split: option.splits)

text \<open>
  The three outcomes of the loop body: a row; the failing subscript of a line that is
  too short; the leftmost integer literal that is refused.
\<close>

lemma read_domtbl_row_cases:
  obtains
    (row) r where "22 \<le> length x" and "read_domtbl_row x = Inr r"
  | (short) "length x < 22"
      and "\<forall>i \<in> set int_positions. i < length x \<longrightarrow> \<not> isl (py_int (x ! i))"
      and "read_domtbl_row x = Inl IndexError"
  | (literal) i where "i \<in> set int_positions" and "i < length x"
      and "isl (py_int (x ! i))"
      and "\<forall>j \<in> set int_positions. j < i \<longrightarrow> \<not> isl (py_int (x ! j))"
      and "read_domtbl_row x = Inl (ValueError (x ! i))"
proof -
  let ?bad = "\<lambda>i. i \<in> set int_positions \<and> i < length x \<and> isl (py_int (x ! i))"
  show ?thesis
  proof (cases "\<exists>i. ?bad i")
    case True
    define i where "i = (LEAST i. ?bad i)"
    from True have bad: "?bad i" unfolding i_def by (rule LeastI_ex)
    have least: "\<not> ?bad j" if "j < i" for j
      using that unfolding i_def by (rule not_less_Least)
    have before: "\<forall>j \<in> set int_positions. j < i \<longrightarrow> \<not> isl (py_int (x ! j))"
    proof (intro ballI impI)
      fix j assume j: "j \<in> set int_positions" "j < i"
      with bad have "j < length x" by simp
      with least [OF j(2)] j(1) show "\<not> isl (py_int (x ! j))" by simp
    qed
    from bad have "py_int (x ! i) = Inl (ValueError (x ! i))" by (simp add: py_int_isl)
    with bad before have "read_domtbl_row x = Inl (ValueError (x ! i))"
      by (intro read_domtbl_row_int_error) simp_all
    with bad before show ?thesis by (intro literal [of i]) simp_all
  next
    case False
    then have ok: "\<forall>i \<in> set int_positions. i < length x \<longrightarrow> \<not> isl (py_int (x ! i))"
      by blast
    show ?thesis
    proof (cases "length x < 22")
      case True
      with ok show ?thesis by (intro short read_domtbl_row_IndexError)
    next
      case long: False
      then have "\<forall>i \<in> set int_positions. i < length x"
        by (simp add: int_positions_def)
      with ok have "\<forall>i \<in> set int_positions. \<not> isl (py_int (x ! i))" by blast
      with long obtain r where "read_domtbl_row x = Inr r"
        using read_domtbl_row_ok [of x] by auto
      with long show ?thesis by (intro row [of r]) simp_all
    qed
  qed
qed

text \<open>A token at a score position takes no part in the outcome.\<close>

lemma score_position_not_int:
  "k \<in> set score_positions \<Longrightarrow> i \<in> set int_positions \<Longrightarrow> i \<noteq> k"
  by (auto simp: score_positions_def int_positions_def)

lemma read_domtbl_row_score_update:
  assumes k: "k \<in> set score_positions"
    and e: "read_domtbl_row x = Inl e"
  shows "read_domtbl_row (x[k := s]) = Inl e"
proof (cases x rule: read_domtbl_row_cases)
  case (row r)
  with e show ?thesis by simp
next
  case short
  from short(2) k have "\<forall>i \<in> set int_positions.
      i < length (x[k := s]) \<longrightarrow> \<not> isl (py_int (x[k := s] ! i))"
    by (auto dest: score_position_not_int)
  with short(1) have "read_domtbl_row (x[k := s]) = Inl IndexError"
    by (intro read_domtbl_row_IndexError) simp_all
  with short(3) e show ?thesis by simp
next
  case (literal i)
  from k literal(1) have ik: "i \<noteq> k" by (rule score_position_not_int)
  from literal(4) k have "\<forall>j \<in> set int_positions. j < i \<longrightarrow> \<not> isl (py_int (x[k := s] ! j))"
    by (auto dest: score_position_not_int)
  moreover from literal(3) ik have "py_int (x[k := s] ! i) = Inl (ValueError (x ! i))"
    by (simp add: py_int_isl)
  ultimately have "read_domtbl_row (x[k := s]) = Inl (ValueError (x ! i))"
    using literal(1,2) by (intro read_domtbl_row_int_error) simp_all
  with literal(5) e show ?thesis by simp
qed

lemmas int_eval = py_int_def parse_int_def int_strip_def is_int_space_def is_digit_def
  digit_val_def

lemmas row_eval = read_domtbl_row_def int_item_def getitem_def int_eval

subsection \<open>Lines with fewer than 22 tokens\<close>

text \<open>
  Claim C4, as stated, fails: a line with fewer than 22 tokens does not always end in the
  error of a missing field. The line \<open>a b c\<close> has three tokens, and the call fails with
  the \<^verbatim>\<open>ValueError\<close> that \<^verbatim>\<open>int()\<close> raises for the token \<open>c\<close>, which is evaluated
  before any missing subscript is reached; the exception carries that token and nothing
  about the line.
\<close>

theorem short_line_counterexample:
  "length (split_ws ''a b c'') < 22 \<and>
   read_domtbl hash_comment [''hits.domtbl'' \<mapsto> Readable [''a b c'']] (Path ''hits.domtbl'')
     = Inl (ValueError ''c'') \<and>
   read_domtbl hash_comment [''hits.domtbl'' \<mapsto> Readable [''a b c'']] (Path ''hits.domtbl'')
     \<noteq> Inl IndexError"
proof -
  define l where "l = ''a b c''"
  define fs :: filesystem where "fs = [''hits.domtbl'' \<mapsto> Readable [l]]"
  have s: "split_ws l = [''a'', ''b'', ''c'']" unfolding l_def by (simp add: is_space_def)
  have r: "read_domtbl_row [''a'', ''b'', ''c''] = Inl (ValueError ''c'')"
    by (simp add: row_eval)
  have nc: "\<not> hash_comment l" by (simp add: hash_comment_def l_def)
  have "read_domtbl hash_comment fs (Path ''hits.domtbl'') = Inl (ValueError ''c'')"
    by (simp add: fs_def read_domtbl_def csv_iter_def data_lines_def s r nc)
  moreover have "length (split_ws l) < 22" by (simp add: s)
  ultimately have "length (split_ws l) < 22 \<and>
   read_domtbl hash_comment fs (Path ''hits.domtbl'') = Inl (ValueError ''c'') \<and>
   read_domtbl hash_comment fs (Path ''hits.domtbl'') \<noteq> Inl IndexError"
    by simp
  then show ?thesis unfolding fs_def l_def .
qed

text \<open>
  Claim C4, amended. For every data line with fewer than 22 tokens of a readable file the
  call fails and returns no rows. When the data lines before it give rows, the exception
  of the call is decided by that line, in both directions: it is \<^verbatim>\<open>IndexError\<close>
  (which has no payload: neither line number nor content) when the integer tokens that
  are present are literals that \<^verbatim>\<open>int()\<close> accepts, and otherwise it is the
  \<^verbatim>\<open>ValueError\<close> carrying the leftmost integer token that \<^verbatim>\<open>int()\<close> refuses.
\<close>

theorem short_line_fails:
  assumes readable: "fs p = Some (Readable content)"
    and lines: "data_lines comment content = pre @ l # post"
    and short: "length (split_ws l) < 22"
  shows "isl (read_domtbl comment fs (Path p)) \<and>
    (\<forall>rows. read_domtbl comment fs (Path p) \<noteq> Inr rows) \<and>
    ((\<forall>l' \<in> set pre. \<not> isl (read_domtbl_row (split_ws l'))) \<longrightarrow>
       ((\<forall>i \<in> set int_positions.
            i < length (split_ws l) \<longrightarrow> \<not> isl (py_int (split_ws l ! i))) \<longrightarrow>
          read_domtbl comment fs (Path p) = Inl IndexError) \<and>
       (\<forall>i \<in> set int_positions.
          i < length (split_ws l) \<and> isl (py_int (split_ws l ! i)) \<and>
          (\<forall>j \<in> set int_positions. j < i \<longrightarrow> \<not> isl (py_int (split_ws l ! j))) \<longrightarrow>
          read_domtbl comment fs (Path p) = Inl (ValueError (split_ws l ! i))))"
proof -
  let ?x = "split_ws l"
  let ?call = "read_domtbl comment fs (Path p)"
  have tokens: "csv_iter comment content = map split_ws pre @ ?x # map split_ws post"
    by (simp add: csv_iter_def lines)
  have call: "?call = read_domtbl_loop (csv_iter comment content) []"
    using readable by (simp add: read_domtbl_def)
  have row_fails: "isl (read_domtbl_row ?x)"
  proof (cases ?x rule: read_domtbl_row_cases)
    case (row r)
    with short show ?thesis by simp
  next
    case short
    then show ?thesis by simp
  next
    case (literal i)
    then show ?thesis by simp
  qed
  have "?x \<in> set (csv_iter comment content)" by (simp add: tokens)
  from read_domtbl_loop_Inl [OF this row_fails, of "[]"] call
  have fails: "isl ?call" by simp
  then have no_rows: "\<forall>rows. ?call \<noteq> Inr rows" by auto
  have first: "?call = Inl e"
    if pre: "\<forall>l' \<in> set pre. \<not> isl (read_domtbl_row (split_ws l'))"
      and e: "read_domtbl_row ?x = Inl e" for e
  proof -
    from pre have "\<forall>y \<in> set (map split_ws pre). \<not> isl (read_domtbl_row y)" by simp
    from read_domtbl_loop_first_error [OF this e, of "map split_ws post" "[]"] call tokens
    show ?thesis by simp
  qed
  have index: "?call = Inl IndexError"
    if pre: "\<forall>l' \<in> set pre. \<not> isl (read_domtbl_row (split_ws l'))"
      and ok: "\<forall>i \<in> set int_positions. i < length ?x \<longrightarrow> \<not> isl (py_int (?x ! i))"
  proof -
    from short ok have "read_domtbl_row ?x = Inl IndexError"
      by (rule read_domtbl_row_IndexError)
    with pre show ?thesis by (rule first)
  qed
  have literal: "?call = Inl (ValueError (?x ! i))"
    if pre: "\<forall>l' \<in> set pre. \<not> isl (read_domtbl_row (split_ws l'))"
      and i: "i \<in> set int_positions" "i < length ?x"
      and bad: "isl (py_int (?x ! i))"
      and left: "\<forall>j \<in> set int_positions. j < i \<longrightarrow> \<not> isl (py_int (?x ! j))" for i
  proof -
    from bad have "py_int (?x ! i) = Inl (ValueError (?x ! i))" by (rule py_int_isl)
    with i left have "read_domtbl_row ?x = Inl (ValueError (?x ! i))"
      by (intro read_domtbl_row_int_error)
    with pre show ?thesis by (rule first)
  qed
  from fails no_rows index literal show ?thesis by blast
qed

theorem short_line_fails_witness:
  "read_domtbl hash_comment
     [''hits.domtbl'' \<mapsto> Readable
        [''t - 7 q - 8 0 1 0 2 3 0 0 1 0 1 2 3 4 5 6 0'', ''a b 1 d e 2 f g h 3'']]
     (Path ''hits.domtbl'') = Inl IndexError \<and>
   read_domtbl hash_comment
     [''hits.domtbl'' \<mapsto> Readable
        [''t - 7 q - 8 0 1 0 2 3 0 0 1 0 1 2 3 4 5 6 0'', ''a b 1 d e x f g h 3'']]
     (Path ''hits.domtbl'') = Inl (ValueError ''x'')"
proof -
  define good where "good = ''t - 7 q - 8 0 1 0 2 3 0 0 1 0 1 2 3 4 5 6 0''"
  define la where "la = ''a b 1 d e 2 f g h 3''"
  define lb where "lb = ''a b 1 d e x f g h 3''"
  define tg where "tg = [''t'', ''-'', ''7'', ''q'', ''-'', ''8'', ''0'', ''1'', ''0'', ''2'', ''3'', ''0'',
       ''0'', ''1'', ''0'', ''1'', ''2'', ''3'', ''4'', ''5'', ''6'', ''0'']"
  define ta where "ta = [''a'', ''b'', ''1'', ''d'', ''e'', ''2'', ''f'', ''g'', ''h'', ''3'']"
  define tb where "tb = [''a'', ''b'', ''1'', ''d'', ''e'', ''x'', ''f'', ''g'', ''h'', ''3'']"
  define fa :: filesystem where "fa = [''hits.domtbl'' \<mapsto> Readable [good, la]]"
  define fb :: filesystem where "fb = [''hits.domtbl'' \<mapsto> Readable [good, lb]]"
  have sg: "split_ws good = tg" unfolding good_def tg_def by (simp add: is_space_def)
  have sa: "split_ws la = ta" unfolding la_def ta_def by (simp add: is_space_def)
  have sb: "split_ws lb = tb" unfolding lb_def tb_def by (simp add: is_space_def)
  have ne: "tg \<noteq> []" "ta \<noteq> []" "tb \<noteq> []" by (simp_all add: tg_def ta_def tb_def)
  have nc: "\<not> hash_comment good" "\<not> hash_comment la" "\<not> hash_comment lb"
    by (simp_all add: hash_comment_def good_def la_def lb_def)
  have ra: "fa ''hits.domtbl'' = Some (Readable [good, la])" by (simp add: fa_def)
  have rb: "fb ''hits.domtbl'' = Some (Readable [good, lb])" by (simp add: fb_def)
  have da: "data_lines hash_comment [good, la] = [good] @ la # []"
    by (simp add: data_lines_def sg sa ne nc)
  have db: "data_lines hash_comment [good, lb] = [good] @ lb # []"
    by (simp add: data_lines_def sg sb ne nc)
  have sha: "length (split_ws la) < 22" by (simp add: sa) (simp add: ta_def)
  have shb: "length (split_ws lb) < 22" by (simp add: sb) (simp add: tb_def)
  have pre: "\<forall>l' \<in> set [good]. \<not> isl (read_domtbl_row (split_ws l'))"
    by (simp add: sg) (simp add: tg_def row_eval)
  have oka: "\<forall>i \<in> set int_positions.
      i < length (split_ws la) \<longrightarrow> \<not> isl (py_int (split_ws la ! i))"
    by (simp only: sa) (simp add: ta_def int_positions_def int_eval)
  have i5: "5 \<in> set int_positions" by (simp add: int_positions_def)
  have badb: "5 < length (split_ws lb) \<and> isl (py_int (split_ws lb ! 5)) \<and>
      (\<forall>j \<in> set int_positions. j < 5 \<longrightarrow> \<not> isl (py_int (split_ws lb ! j)))"
    by (simp only: sb) (simp add: tb_def int_positions_def int_eval)
  have tok: "split_ws lb ! 5 = ''x''" by (simp add: sb) (simp add: tb_def)
  from short_line_fails [of fa "''hits.domtbl''" "[good, la]" hash_comment "[good]" la "[]",
      OF ra da sha] pre oka
  have a: "read_domtbl hash_comment fa (Path ''hits.domtbl'') = Inl IndexError"
    by blast
  from short_line_fails [of fb "''hits.domtbl''" "[good, lb]" hash_comment "[good]" lb "[]",
      OF rb db shb] pre i5 badb
  have "read_domtbl hash_comment fb (Path ''hits.domtbl'') = Inl (ValueError (split_ws lb ! 5))"
    by blast
  then have b: "read_domtbl hash_comment fb (Path ''hits.domtbl'') = Inl (ValueError ''x'')"
    by (simp only: tok)
  from conjI [OF a b] show ?thesis unfolding fa_def fb_def good_def la_def lb_def .
qed

subsection \<open>Tokens that are not integers\<close>

text \<open>
  Claim C5, as stated, fails: the error does not identify the field. A line whose domain id
  is \<open>N/A\<close> and a line whose domain size is \<open>N/A\<close> fail with the same exception, the
  \<^verbatim>\<open>ValueError\<close> of \<^verbatim>\<open>int()\<close>, which carries the offending token only.
\<close>

theorem invalid_integer_counterexample:
  "read_domtbl hash_comment
     [''hits.domtbl'' \<mapsto> Readable [''t - 7 q - 8 0 1 0 N/A 3 0 0 1 0 1 2 3 4 5 6 0'']]
     (Path ''hits.domtbl'') = Inl (ValueError ''N/A'') \<and>
   read_domtbl hash_comment
     [''hits.domtbl'' \<mapsto> Readable [''t - 7 q - 8 0 1 0 2 N/A 0 0 1 0 1 2 3 4 5 6 0'']]
     (Path ''hits.domtbl'') = Inl (ValueError ''N/A'')"
proof -
  define la where "la = ''t - 7 q - 8 0 1 0 N/A 3 0 0 1 0 1 2 3 4 5 6 0''"
  define lb where "lb = ''t - 7 q - 8 0 1 0 2 N/A 0 0 1 0 1 2 3 4 5 6 0''"
  define ta where "ta = [''t'', ''-'', ''7'', ''q'', ''-'', ''8'', ''0'', ''1'', ''0'', ''N/A'', ''3'', ''0'',
       ''0'', ''1'', ''0'', ''1'', ''2'', ''3'', ''4'', ''5'', ''6'', ''0'']"
  define tb where "tb = [''t'', ''-'', ''7'', ''q'', ''-'', ''8'', ''0'', ''1'', ''0'', ''2'', ''N/A'', ''0'',
       ''0'', ''1'', ''0'', ''1'', ''2'', ''3'', ''4'', ''5'', ''6'', ''0'']"
  define fa :: filesystem where "fa = [''hits.domtbl'' \<mapsto> Readable [la]]"
  define fb :: filesystem where "fb = [''hits.domtbl'' \<mapsto> Readable [lb]]"
  have a: "split_ws la = ta" unfolding la_def ta_def by (simp add: is_space_def)
  have b: "split_ws lb = tb" unfolding lb_def tb_def by (simp add: is_space_def)
  have ne: "ta \<noteq> []" "tb \<noteq> []" by (simp_all add: ta_def tb_def)
  have nc: "\<not> hash_comment la" "\<not> hash_comment lb"
    by (simp_all add: hash_comment_def la_def lb_def)
  have ra: "read_domtbl_row ta = Inl (ValueError ''N/A'')"
    unfolding ta_def by (simp add: row_eval)
  have rb: "read_domtbl_row tb = Inl (ValueError ''N/A'')"
    unfolding tb_def by (simp add: row_eval)
  have "read_domtbl hash_comment fa (Path ''hits.domtbl'') = Inl (ValueError ''N/A'') \<and>
    read_domtbl hash_comment fb (Path ''hits.domtbl'') = Inl (ValueError ''N/A'')"
    by (simp add: fa_def fb_def read_domtbl_def csv_iter_def data_lines_def a b ne nc ra rb)
  then show ?thesis unfolding fa_def fb_def la_def lb_def .
qed

text \<open>
  Claim C5, amended. If a data line has a token at an integer position that \<^verbatim>\<open>int()\<close>
  refuses, the integer tokens to its left being accepted and the lines before it giving
  rows, then the call fails with \<^verbatim>\<open>ValueError\<close> carrying that token (and no field
  name). The score-like tokens are never coerced: replacing one by any string changes
  neither whether a line fails nor the exception.
\<close>

theorem invalid_integer_token_error:
  assumes readable: "fs p = Some (Readable content)"
    and lines: "data_lines comment content = pre @ l # post"
    and pre: "\<forall>l' \<in> set pre. \<not> isl (read_domtbl_row (split_ws l'))"
    and i: "i \<in> set int_positions" "i < length (split_ws l)"
    and bad: "isl (py_int (split_ws l ! i))"
    and left: "\<forall>j \<in> set int_positions. j < i \<longrightarrow> \<not> isl (py_int (split_ws l ! j))"
  shows "read_domtbl comment fs (Path p) = Inl (ValueError (split_ws l ! i)) \<and>
    (\<forall>k \<in> set score_positions. \<forall>s e.
        read_domtbl_row (x[k := s]) = Inl e \<longleftrightarrow> read_domtbl_row x = Inl e)"
proof -
  from bad have "py_int (split_ws l ! i) = Inl (ValueError (split_ws l ! i))"
    by (rule py_int_isl)
  with i left have row: "read_domtbl_row (split_ws l) = Inl (ValueError (split_ws l ! i))"
    by (intro read_domtbl_row_int_error)
  from pre have "\<forall>y \<in> set (map split_ws pre). \<not> isl (read_domtbl_row y)" by simp
  from read_domtbl_loop_first_error [OF this row, of "map split_ws post" "[]"]
  have "read_domtbl_loop (csv_iter comment content) [] = Inl (ValueError (split_ws l ! i))"
    by (simp add: csv_iter_def lines)
  with readable have call: "read_domtbl comment fs (Path p) = Inl (ValueError (split_ws l ! i))"
    by (simp add: read_domtbl_def)
  have "read_domtbl_row (x[k := s]) = Inl e \<longleftrightarrow> read_domtbl_row x = Inl e"
    if k: "k \<in> set score_positions" for k s e
  proof
    assume "read_domtbl_row (x[k := s]) = Inl e"
    from read_domtbl_row_score_update [OF k this, of "x ! k"]
    show "read_domtbl_row x = Inl e" by simp
  next
    assume "read_domtbl_row x = Inl e"
    then show "read_domtbl_row (x[k := s]) = Inl e"
      by (rule read_domtbl_row_score_update [OF k])
  qed
  with call show ?thesis by blast
qed

theorem invalid_integer_token_error_witness:
  "read_domtbl hash_comment
     [''hits.domtbl'' \<mapsto> Readable
        [''t - 7 q - 8 0 1 0 2 3 0 0 1 0 1 2 3 4 5 6 0'',
         ''t - 7 q - 8 0 1 0 N/A 3 0 0 1 0 1 2 3 4 5 6 0'']]
     (Path ''hits.domtbl'') = Inl (ValueError ''N/A'')"
proof -
  define good where "good = ''t - 7 q - 8 0 1 0 2 3 0 0 1 0 1 2 3 4 5 6 0''"
  define bad where "bad = ''t - 7 q - 8 0 1 0 N/A 3 0 0 1 0 1 2 3 4 5 6 0''"
  define tg where "tg = [''t'', ''-'', ''7'', ''q'', ''-'', ''8'', ''0'', ''1'', ''0'', ''2'', ''3'', ''0'',
       ''0'', ''1'', ''0'', ''1'', ''2'', ''3'', ''4'', ''5'', ''6'', ''0'']"
  define tb where "tb = [''t'', ''-'', ''7'', ''q'', ''-'', ''8'', ''0'', ''1'', ''0'', ''N/A'', ''3'', ''0'',
       ''0'', ''1'', ''0'', ''1'', ''2'', ''3'', ''4'', ''5'', ''6'', ''0'']"
  define fs :: filesystem where "fs = [''hits.domtbl'' \<mapsto> Readable [good, bad]]"
  have sg: "split_ws good = tg" unfolding good_def tg_def by (simp add: is_space_def)
  have sb: "split_ws bad = tb" unfolding bad_def tb_def by (simp add: is_space_def)
  have ne: "tg \<noteq> []" "tb \<noteq> []" by (simp_all add: tg_def tb_def)
  have h1: "fs ''hits.domtbl'' = Some (Readable [good, bad])" by (simp add: fs_def)
  have nc: "\<not> hash_comment good" "\<not> hash_comment bad"
    by (simp_all add: hash_comment_def good_def bad_def)
  have h2: "data_lines hash_comment [good, bad] = [good] @ bad # []"
    by (simp add: data_lines_def sg sb ne nc)
  have h3: "\<forall>l' \<in> set [good]. \<not> isl (read_domtbl_row (split_ws l'))"
    by (simp add: sg) (simp add: tg_def row_eval)
  have h4: "9 \<in> set int_positions" by (simp add: int_positions_def)
  have h5: "9 < length (split_ws bad)" by (simp add: sb) (simp add: tb_def)
  have h6: "isl (py_int (split_ws bad ! 9))" by (simp add: sb) (simp add: tb_def int_eval)
  have h7: "\<forall>j \<in> set int_positions. j < 9 \<longrightarrow> \<not> isl (py_int (split_ws bad ! j))"
    by (simp add: sb) (simp add: tb_def int_positions_def int_eval)
  have t: "split_ws bad ! 9 = ''N/A''" by (simp add: sb) (simp add: tb_def)
  from invalid_integer_token_error
    [of fs "''hits.domtbl''" "[good, bad]" hash_comment "[good]" bad "[]" 9, OF h1 h2 h3 h4 h5 h6 h7]
  have "read_domtbl hash_comment fs (Path ''hits.domtbl'') = Inl (ValueError (split_ws bad ! 9))"
    by blast
  then have "read_domtbl hash_comment fs (Path ''hits.domtbl'') = Inl (ValueError ''N/A'')"
    by (simp only: t)
  then show ?thesis unfolding fs_def good_def bad_def .
qed

subsection \<open>Lines with exactly 22 tokens\<close>



subsection \<open>The argument of \<^verbatim>\<open>read_domtbl\<close>\<close>

text \<open>
  Claim C6 does not hold of the code: \<^verbatim>\<open>read_domtbl\<close> passes its argument to
  \<^verbatim>\<open>open()\<close> whatever it is, so an already open text stream is refused with
  \<^verbatim>\<open>TypeError\<close> and no row is produced, whatever the stream holds. (For a path the
  rows are produced, see C1.)
\<close>

theorem read_domtbl_stream_TypeError:
  "read_domtbl comment fs (Stream ls) = Inl TypeError"
  by (simp add: read_domtbl_def)

text \<open>
  Claim C7. If the path has no file, or a file that cannot be read, \<^verbatim>\<open>read_domtbl\<close>
  fails with the file-access error of \<^verbatim>\<open>open()\<close> (an \<^verbatim>\<open>OSError\<close>:
  \<^verbatim>\<open>FileNotFoundError\<close> or \<^verbatim>\<open>PermissionError\<close>), and no rows are returned.
\<close>

theorem read_domtbl_no_access:
  assumes "fs p = None \<or> fs p = Some Unreadable"
  shows "read_domtbl comment fs (Path p) =
      Inl (OSError (if fs p = None then FileNotFoundError else PermissionError)) \<and>
    (\<forall>rows. read_domtbl comment fs (Path p) \<noteq> Inr rows)"
  using assms by (auto simp: read_domtbl_def)

theorem read_domtbl_no_access_witness:
  "read_domtbl hash_comment Map.empty (Path ''missing.domtbl'') = Inl (OSError FileNotFoundError) \<and>
   read_domtbl hash_comment [''locked.domtbl'' \<mapsto> Unreadable] (Path ''locked.domtbl'')
     = Inl (OSError PermissionError)"
proof -
  have h1: "(Map.empty :: filesystem) ''missing.domtbl'' = None \<or>
      (Map.empty :: filesystem) ''missing.domtbl'' = Some Unreadable"
    by simp
  have h2: "[''locked.domtbl'' \<mapsto> Unreadable] ''locked.domtbl'' = None \<or>
      [''locked.domtbl'' \<mapsto> Unreadable] ''locked.domtbl'' = Some Unreadable"
    by simp
  from read_domtbl_no_access [of Map.empty "''missing.domtbl''" hash_comment, OF h1]
    read_domtbl_no_access [of "[''locked.domtbl'' \<mapsto> Unreadable]" "''locked.domtbl''" hash_comment, OF h2]
  show ?thesis by simp
qed

section \<open>Coordinates\<close>

text \<open>
  Claim C2. For a coordinate pair with \<open>start \<le> stop\<close> the interval is the pair
  \<open>(start - 1, stop)\<close>, and its length \<open>stop - (start - 1)\<close> is \<open>stop - start + 1\<close>, the
  number of positions of the closed interval from \<open>start\<close> to \<open>stop\<close>.
\<close>

theorem interval_half_open:
  assumes "start c \<le> stop c"
  shows "interval c = Inr \<lparr> py_start = start c - 1, py_stop = stop c \<rparr> \<and>
    stop c - (start c - 1) = stop c - start c + 1 \<and>
    int (card {start c .. stop c}) = stop c - (start c - 1)"
  using assms by (simp add: interval_def RInterval_init_def to_pyinterval_def)

theorem interval_half_open_witness:
  "interval \<lparr> start = 10, stop = 50 \<rparr> = Inr \<lparr> py_start = 9, py_stop = 50 \<rparr> \<and>
   int (card {10 .. (50 :: int)}) = 41"
proof -
  have h: "start \<lparr> start = 10, stop = 50 \<rparr> \<le> stop \<lparr> start = 10, stop = 50 \<rparr>" by simp
  from interval_half_open [OF h] show ?thesis by simp
qed

text \<open>
  Claim C9. Neither the construction of a coordinate nor its interval checks any bound:
  for every pair of integers, also with \<open>start > stop\<close>, both succeed, and the interval is
  \<open>(start - 1, stop)\<close>.
\<close>

theorem interval_unchecked:
  "DomTBLCoord_init a b = Inr \<lparr> start = a, stop = b \<rparr> \<and>
   interval \<lparr> start = a, stop = b \<rparr> = Inr \<lparr> py_start = a - 1, py_stop = b \<rparr>"
  by (simp add: DomTBLCoord_init_def interval_def RInterval_init_def to_pyinterval_def)

section \<open>Rows as sequences, and assignment\<close>

text \<open>
  Claim C3 does not hold of the code: \<^verbatim>\<open>DomTBLRow.__iter__\<close> calls
  \<^verbatim>\<open>dataclasses.asdict\<close> on a row, and a row is a pydantic model, not a dataclass
  instance, so iterating any row raises \<^verbatim>\<open>TypeError\<close> and yields no value.
\<close>

theorem DomTBLRow_iter_TypeError:
  "DomTBLRow_iter r = Inl TypeError"
  by (simp add: DomTBLRow_iter_def DomTBLRow_asdict_def dataclasses_asdict_def DomTBLRow_obj_def)

lemma map_of_setattr_other:
  "x \<noteq> name \<Longrightarrow>
   map_of (map (\<lambda>(n, old). if n = name then (n, v) else (n, old)) fs) x = map_of fs x"
  by (induction fs) auto

lemma map_of_setattr_same:
  "name \<in> fst ` set fs \<Longrightarrow>
   map_of (map (\<lambda>(n, old). if n = name then (n, v) else (n, old)) fs) name = Some v"
  by (induction fs) auto

lemma map_of_setattr:
  "name \<in> fst ` set fs \<Longrightarrow>
   map_of (map (\<lambda>(n, old). if n = name then (n, v) else (n, old)) fs) = (map_of fs)(name \<mapsto> v)"
  by (rule ext) (simp add: map_of_setattr_other map_of_setattr_same)

lemma pydantic_setattr_default:
  assumes "name \<in> fst ` set fs"
  shows "\<exists>fs'. pydantic_setattr BaseModel_config (PObj k fs) name v = Inr (PObj k fs') \<and>
     map_of fs' = (map_of fs)(name \<mapsto> v)"
  using assms by (simp add: pydantic_setattr_def BaseModel_config_def map_of_setattr)

text \<open>
  Claim C8, as stated, fails: an index is not immutable. Assigning 5 to the field
  \<^verbatim>\<open>length\<close> of a constructed index succeeds and gives the index another length.
\<close>

theorem setattr_counterexample:
  "DomTBLIndex_setattr \<lparr> idx_name = ''sp|P1'', idx_accession = ''ACC1'', idx_length = 100 \<rparr>
     ''length'' (PInt 5)
   = Inr (DomTBLIndex_obj \<lparr> idx_name = ''sp|P1'', idx_accession = ''ACC1'', idx_length = 5 \<rparr>) \<and>
   DomTBLIndex_obj \<lparr> idx_name = ''sp|P1'', idx_accession = ''ACC1'', idx_length = 5 \<rparr> \<noteq>
   DomTBLIndex_obj \<lparr> idx_name = ''sp|P1'', idx_accession = ''ACC1'', idx_length = 100 \<rparr>"
  by (simp add: DomTBLIndex_setattr_def DomTBLIndex_obj_def pydantic_setattr_def
      BaseModel_config_def)

text \<open>
  Claim C8, amended. Rows and indexes are pydantic models with the default configuration,
  which does not freeze instances: assigning a value to a declared field of a constructed
  row or index succeeds and replaces the value of that field, and every other field keeps
  its value.
\<close>

theorem setattr_replaces_field:
  "(name \<in> fst ` set (fields_of (DomTBLRow_obj r)) \<longrightarrow>
      (\<exists>obj. DomTBLRow_setattr r name v = Inr obj \<and>
         map_of (fields_of obj) = (map_of (fields_of (DomTBLRow_obj r)))(name \<mapsto> v))) \<and>
   (name \<in> fst ` set (fields_of (DomTBLIndex_obj i)) \<longrightarrow>
      (\<exists>obj. DomTBLIndex_setattr i name v = Inr obj \<and>
         map_of (fields_of obj) = (map_of (fields_of (DomTBLIndex_obj i)))(name \<mapsto> v)))"
proof (intro conjI impI)
  assume n: "name \<in> fst ` set (fields_of (DomTBLRow_obj r))"
  obtain fs where o: "DomTBLRow_obj r = PObj PydanticModel fs"
    by (simp add: DomTBLRow_obj_def)
  with n have "name \<in> fst ` set fs" by (simp add: fields_of_def)
  from pydantic_setattr_default [OF this, of PydanticModel v] o
  show "\<exists>obj. DomTBLRow_setattr r name v = Inr obj \<and>
         map_of (fields_of obj) = (map_of (fields_of (DomTBLRow_obj r)))(name \<mapsto> v)"
    by (auto simp: DomTBLRow_setattr_def fields_of_def)
next
  assume n: "name \<in> fst ` set (fields_of (DomTBLIndex_obj i))"
  obtain fs where o: "DomTBLIndex_obj i = PObj PydanticModel fs"
    by (simp add: DomTBLIndex_obj_def)
  with n have "name \<in> fst ` set fs" by (simp add: fields_of_def)
  from pydantic_setattr_default [OF this, of PydanticModel v] o
  show "\<exists>obj. DomTBLIndex_setattr i name v = Inr obj \<and>
         map_of (fields_of obj) = (map_of (fields_of (DomTBLIndex_obj i)))(name \<mapsto> v)"
    by (auto simp: DomTBLIndex_setattr_def fields_of_def)
qed

theorem setattr_replaces_field_witness:
  "''length'' \<in> fst ` set (fields_of (DomTBLIndex_obj
       \<lparr> idx_name = ''sp|P1'', idx_accession = ''ACC1'', idx_length = 100 \<rparr>)) \<and>
   (\<exists>obj. DomTBLIndex_setattr \<lparr> idx_name = ''sp|P1'', idx_accession = ''ACC1'', idx_length = 100 \<rparr>
        ''length'' (PInt 5) = Inr obj \<and>
      map_of (fields_of obj) ''length'' = Some (PInt 5) \<and>
      map_of (fields_of obj) ''name'' = Some (PStr ''sp|P1''))"
proof -
  define i where "i = \<lparr> idx_name = ''sp|P1'', idx_accession = ''ACC1'', idx_length = 100 \<rparr>"
  have h: "''length'' \<in> fst ` set (fields_of (DomTBLIndex_obj i))"
    by (simp add: fields_of_def DomTBLIndex_obj_def)
  from setattr_replaces_field [of "''length''" undefined "PInt 5" i] h
  obtain obj where s: "DomTBLIndex_setattr i ''length'' (PInt 5) = Inr obj"
    and m: "map_of (fields_of obj) = (map_of (fields_of (DomTBLIndex_obj i)))(''length'' \<mapsto> PInt 5)"
    by blast
  from m have "map_of (fields_of obj) ''length'' = Some (PInt 5)"
    and "map_of (fields_of obj) ''name'' = Some (PStr ''sp|P1'')"
    by (simp_all add: fields_of_def DomTBLIndex_obj_def i_def)
  with h s show ?thesis unfolding i_def by blast
qed

end
